theory Spec2Isabelle
  imports Main "HOL-Library.Word"
begin

section \<open>The federated leave handshake: \<open>federationapi/routing/leave.go\<close>\<close>

text \<open>
  The two handlers \<open>MakeLeave\<close> and \<open>SendLeave\<close> are embedded as functions that
  return the list of collaborator calls they made, in order, together with their
  outcome. Everything the handlers import (the room server, the key ring, the event
  library) is a field of the record \<open>env\<close>: the handlers are verified for every
  behaviour of those collaborators.
\<close>

subsection \<open>Values of the imported packages\<close>

type_synonym ServerName = string
type_synonym RoomVersion = string
type_synonym RawJSON = string
type_synonym Timestamp = "64 word"
type_synonym JSONObject = "(string \<times> string) list"

text \<open>
  A Go \<open>error\<close> value. The handlers tell three kinds apart (leave.go:73-86): the
  sentinel \<open>eventutil.ErrRoomNoExists\<close>, a \<open>gomatrixserverlib.BadJSONError\<close>, and
  any other error. \<open>ErrorString\<close> is the method \<open>Error()\<close>; for the sentinel, whose
  text is declared in \<open>eventutil\<close>, it gives the wording of leave.go:76.
\<close>

datatype go_error = ErrRoomNoExists | BadJSONError string | OtherError string

fun ErrorString :: "go_error \<Rightarrow> string" where
  "ErrorString ErrRoomNoExists = ''Room does not exist''"
| "ErrorString (BadJSONError m) = m"
| "ErrorString (OtherError m) = m"

definition StatusOK :: nat where
  [simp]: "StatusOK = 200"

definition StatusBadRequest :: nat where
  [simp]: "StatusBadRequest = 400"

definition StatusForbidden :: nat where
  [simp]: "StatusForbidden = 403"

definition StatusNotFound :: nat where
  [simp]: "StatusNotFound = 404"

definition StatusInternalServerError :: nat where
  [simp]: "StatusInternalServerError = 500"

definition Leave :: string where
  "Leave = ''leave''"

text \<open>
  \<open>gomatrixserverlib.EventBuilder\<close>: the four fields the handler sets
  (leave.go:59-64), the content written by \<open>SetContent\<close> (a JSON object, kept as
  its key/value pairs), and \<open>Other\<close> for the remaining fields of the struct,
  which the handler leaves at their zero value.
\<close>

record EventBuilder =
  Sender :: string
  RoomID :: string
  Type :: string
  StateKey :: "string option"
  Content :: JSONObject
  Other :: string

text \<open>
  \<open>gomatrixserverlib.Event\<close> is opaque to the handlers; these are the accessors
  they read (leave.go:138-166).
\<close>

record Event =
  event_RoomID :: string
  event_EventID :: string
  event_Origin :: ServerName
  event_OriginServerTS :: Timestamp
  event_JSON :: RawJSON

record HeaderedEvent =
  headered_RoomVersion :: RoomVersion
  headered_Event :: Event

definition Headered :: "Event \<Rightarrow> RoomVersion \<Rightarrow> HeaderedEvent" where
  "Headered event roomVersion =
     \<lparr>headered_RoomVersion = roomVersion, headered_Event = event\<rparr>"

record QueryLatestEventsAndStateResponse =
  StateEvents :: "HeaderedEvent list"

datatype AuthEvents = NewAuthEvents "Event list"

record VerifyJSONRequest =
  ServerName :: ServerName
  Message :: RawJSON
  AtTS :: Timestamp
  StrictValidityChecking :: bool

record VerifyJSONResult =
  Error :: "go_error option"

record FederationRequest =
  request_Origin :: ServerName
  request_Content :: RawJSON

record Dendrite =
  Matrix_ServerName :: ServerName

subsection \<open>Responses\<close>

text \<open>
  \<open>util.JSONResponse\<close> with the bodies the handlers build. \<open>ResponseValue\<close> is a
  whole response used as a body, as leave.go:38-41 does.
\<close>

datatype json_value =
    BadJSON string
  | Forbidden string
  | NotFound string
  | NotJSON string
  | UnsupportedRoomVersion string
  | InternalFailure
  | ResponseValue json_response
  | MakeLeaveBody RoomVersion EventBuilder
  | EmptyStruct
and json_response = JSONResponse (Code: nat) (JSON: json_value)

text \<open>
  Modelled from the spec: \<open>jsonerror.InternalServerError\<close> is not under src/. The
  spec names its result \<open>InternalFailure\<close>, an opaque error kind apart from every
  validation error; the status is the one leave.go:39 pairs with it.
\<close>

definition InternalServerError :: json_response where
  "InternalServerError = JSONResponse StatusInternalServerError InternalFailure"

datatype outcome = Return json_response | Panic

subsection \<open>Collaborators and their calls\<close>

text \<open>
  The room server (\<open>QueryRoomVersionForRoom\<close>, \<open>BuildEvent\<close>, \<open>SendEvents\<close>), the
  key ring (\<open>VerifyJSONs\<close>), the event library (\<open>SplitID\<close>, \<open>SetContent\<close>,
  \<open>Allowed\<close>, \<open>NewEventFromUntrustedJSON\<close>, \<open>Redact\<close>, \<open>Membership\<close>) and the
  clock. A method with a pointer receiver returns the updated receiver:
  \<open>SetContent\<close> returns the builder, \<open>BuildEvent\<close> the event, the builder and
  the query response it filled.
\<close>

record env =
  QueryRoomVersionForRoom :: "string \<Rightarrow> go_error + RoomVersion"
  SplitID :: "char \<Rightarrow> string \<Rightarrow> go_error + (string \<times> ServerName)"
  SetContent :: "EventBuilder \<Rightarrow> JSONObject \<Rightarrow> go_error option \<times> EventBuilder"
  BuildEvent :: "EventBuilder \<Rightarrow> Dendrite \<Rightarrow> nat \<Rightarrow>
                 go_error + (Event \<times> EventBuilder \<times> QueryLatestEventsAndStateResponse)"
  Allowed :: "Event \<Rightarrow> AuthEvents \<Rightarrow> go_error option"
  NewEventFromUntrustedJSON :: "RawJSON \<Rightarrow> RoomVersion \<Rightarrow> go_error + Event"
  Redact :: "Event \<Rightarrow> Event"
  Membership :: "Event \<Rightarrow> go_error + string"
  VerifyJSONs :: "VerifyJSONRequest list \<Rightarrow> go_error + VerifyJSONResult list"
  SendEvents :: "HeaderedEvent list \<Rightarrow> ServerName \<Rightarrow> string option \<Rightarrow> go_error option"
  Now :: nat

datatype call =
    QueryRoomVersionForRoomCall string
  | BuildEventCall EventBuilder Dendrite nat
  | AllowedCall Event AuthEvents
  | NewEventFromUntrustedJSONCall RawJSON RoomVersion
  | VerifyJSONsCall "VerifyJSONRequest list"
  | SendEventsCall "HeaderedEvent list" ServerName "string option"
  | LogError string go_error

subsection \<open>\<open>MakeLeave\<close>: the \<open>/make_leave\<close> API (leave.go:28-108)\<close>

definition MakeLeave ::
  "env \<Rightarrow> FederationRequest \<Rightarrow> Dendrite \<Rightarrow> string \<Rightarrow> string \<Rightarrow> call list \<times> outcome" where
  "MakeLeave env request cfg roomID userID =
     (let t1 = [QueryRoomVersionForRoomCall roomID] in
      case QueryRoomVersionForRoom env roomID of
        Inl err \<Rightarrow>
          (t1, Return (JSONResponse StatusInternalServerError (ResponseValue InternalServerError)))
      | Inr verRes_RoomVersion \<Rightarrow>
         (case SplitID env (CHR ''@'') userID of
            Inl err \<Rightarrow> (t1, Return (JSONResponse StatusBadRequest (BadJSON ''Invalid UserID'')))
          | Inr (localpart, domain) \<Rightarrow>
              if domain \<noteq> request_Origin request then
                (t1, Return (JSONResponse StatusForbidden
                   (Forbidden ''The leave must be sent by the server of the user'')))
              else
               (case SetContent env
                       \<lparr>Sender = userID, RoomID = roomID, Type = ''m.room.member'',
                        StateKey = Some userID, Content = [], Other = []\<rparr>
                       [(''membership'', Leave)] of
                  (Some err, builder) \<Rightarrow>
                    (t1 @ [LogError ''builder.SetContent failed'' err], Return InternalServerError)
                | (None, builder) \<Rightarrow>
                   (let t2 = t1 @ [BuildEventCall builder cfg (Now env)] in
                    case BuildEvent env builder cfg (Now env) of
                      Inl ErrRoomNoExists \<Rightarrow>
                        (t2, Return (JSONResponse StatusNotFound (NotFound ''Room does not exist'')))
                    | Inl (BadJSONError m) \<Rightarrow>
                        (t2, Return (JSONResponse StatusBadRequest
                           (BadJSON (ErrorString (BadJSONError m)))))
                    | Inl (OtherError m) \<Rightarrow>
                        (t2 @ [LogError ''eventutil.BuildEvent failed'' (OtherError m)],
                         Return InternalServerError)
                    | Inr (event, builder', queryRes) \<Rightarrow>
                       (let stateEvents = map headered_Event (StateEvents queryRes);
                            provider = NewAuthEvents stateEvents;
                            t3 = t2 @ [AllowedCall event provider] in
                        case Allowed env event provider of
                          Some err \<Rightarrow>
                            (t3, Return (JSONResponse StatusForbidden (Forbidden (ErrorString err))))
                        | None \<Rightarrow>
                            (t3, Return (JSONResponse StatusOK
                               (MakeLeaveBody verRes_RoomVersion builder'))))))))"

subsection \<open>\<open>SendLeave\<close>: the \<open>/send_leave\<close> API (leave.go:111-213)\<close>

definition SendLeave ::
  "env \<Rightarrow> FederationRequest \<Rightarrow> Dendrite \<Rightarrow> string \<Rightarrow> string \<Rightarrow> call list \<times> outcome" where
  "SendLeave env request cfg roomID eventID =
     (let t1 = [QueryRoomVersionForRoomCall roomID] in
      case QueryRoomVersionForRoom env roomID of
        Inl err \<Rightarrow>
          (t1, Return (JSONResponse StatusBadRequest (UnsupportedRoomVersion (ErrorString err))))
      | Inr verRes_RoomVersion \<Rightarrow>
         (let t2 = t1 @ [NewEventFromUntrustedJSONCall (request_Content request) verRes_RoomVersion] in
          case NewEventFromUntrustedJSON env (request_Content request) verRes_RoomVersion of
            Inl err \<Rightarrow>
              (t2, Return (JSONResponse StatusBadRequest
                 (NotJSON (''The request body could not be decoded into valid JSON. ''
                           @ ErrorString err))))
          | Inr event \<Rightarrow>
              if event_RoomID event \<noteq> roomID then
                (t2, Return (JSONResponse StatusBadRequest (BadJSON
                   ''The room ID in the request path must match the room ID in the leave event JSON'')))
              else if event_EventID event \<noteq> eventID then
                (t2, Return (JSONResponse StatusBadRequest (BadJSON
                   ''The event ID in the request path must match the event ID in the leave event JSON'')))
              else if event_Origin event \<noteq> request_Origin request then
                (t2, Return (JSONResponse StatusForbidden (Forbidden
                   ''The leave must be sent by the server it originated on'')))
              else
               (let redacted = Redact env event;
                    verifyRequests =
                      [\<lparr>ServerName = event_Origin event, Message = event_JSON redacted,
                        AtTS = event_OriginServerTS event, StrictValidityChecking = True\<rparr>];
                    t3 = t2 @ [VerifyJSONsCall verifyRequests] in
                case VerifyJSONs env verifyRequests of
                  Inl err \<Rightarrow>
                    (t3 @ [LogError ''keys.VerifyJSONs failed'' err], Return InternalServerError)
                | Inr [] \<Rightarrow> (t3, Panic)
                | Inr (verifyResult # _) \<Rightarrow>
                    if Error verifyResult \<noteq> None then
                      (t3, Return (JSONResponse StatusForbidden (Forbidden
                         ''The leave must be signed by the server it originated on'')))
                    else
                     (case Membership env event of
                        Inl err \<Rightarrow>
                          (t3 @ [LogError ''event.Membership failed'' err],
                           Return InternalServerError)
                      | Inr mem \<Rightarrow>
                          if mem \<noteq> Leave then
                            (t3, Return (JSONResponse StatusBadRequest (BadJSON
                               ''The membership in the event content must be set to leave'')))
                          else
                           (let events = [Headered event verRes_RoomVersion];
                                t4 = t3 @ [SendEventsCall events (Matrix_ServerName cfg) None] in
                            case SendEvents env events (Matrix_ServerName cfg) None of
                              Some err \<Rightarrow>
                                (t4 @ [LogError ''producer.SendEvents failed'' err],
                                 Return InternalServerError)
                            | None \<Rightarrow> (t4, Return (JSONResponse StatusOK EmptyStruct)))))))"


subsection \<open>Sample environments\<close>

text \<open>
  Concrete collaborators for evaluating the handlers: the room \<open>!r:a.org\<close> at
  version \<open>1\<close> on the server \<open>a.org\<close>, the user \<open>@u:b.org\<close> and the leave event
  \<open>$e1\<close> signed by \<open>b.org\<close>. \<open>SplitID_sample\<close> splits \<open>SIGIL LOCALPART : DOMAIN\<close>
  at the first colon.
\<close>

definition SplitID_sample :: "char \<Rightarrow> string \<Rightarrow> go_error + (string \<times> ServerName)" where
  "SplitID_sample sigil ident =
     (case ident of
        [] \<Rightarrow> Inl (OtherError ''invalid ID: missing sigil'')
      | c # rest \<Rightarrow>
          if c \<noteq> sigil then Inl (OtherError ''invalid ID: missing sigil'')
          else if CHR '':'' \<notin> set ident then Inl (OtherError ''invalid ID: missing colon'')
          else Inr (takeWhile (\<lambda>x. x \<noteq> CHR '':'') rest,
                    tl (dropWhile (\<lambda>x. x \<noteq> CHR '':'') rest)))"

definition sample_event :: Event where
  "sample_event =
     \<lparr>event_RoomID = ''!r:a.org'', event_EventID = ''$e1'', event_Origin = ''b.org'',
      event_OriginServerTS = 1000, event_JSON = ''signed leave event''\<rparr>"

definition sample_env :: env where
  "sample_env =
     \<lparr>QueryRoomVersionForRoom =
        (\<lambda>room. if room = ''!r:a.org'' then Inr ''1''
                 else Inl (OtherError ''no version for room'')),
      SplitID = SplitID_sample,
      SetContent = (\<lambda>builder content. (None, builder\<lparr>Content := content\<rparr>)),
      BuildEvent = (\<lambda>builder cfg now.
         Inr (sample_event, builder\<lparr>Other := ''prev_events, auth_events, depth''\<rparr>,
              \<lparr>StateEvents = []\<rparr>)),
      Allowed = (\<lambda>event provider. None),
      NewEventFromUntrustedJSON =
        (\<lambda>raw version. if raw = ''signed leave event'' then Inr sample_event
                        else Inl (BadJSONError ''unexpected end of JSON input'')),
      Redact = (\<lambda>event. event\<lparr>event_JSON := ''redacted leave event''\<rparr>),
      Membership = (\<lambda>event. Inr ''leave''),
      VerifyJSONs = (\<lambda>requests. Inr (map (\<lambda>r. \<lparr>Error = None\<rparr>) requests)),
      SendEvents = (\<lambda>events sendAsServer txnID. None),
      Now = 0\<rparr>"

definition sample_cfg :: Dendrite where
  "sample_cfg = \<lparr>Matrix_ServerName = ''a.org''\<rparr>"

definition request_from :: "ServerName \<Rightarrow> FederationRequest" where
  "request_from origin =
     \<lparr>request_Origin = origin, request_Content = ''signed leave event''\<rparr>"

definition sample_verifyRequests :: "VerifyJSONRequest list" where
  "sample_verifyRequests =
     [\<lparr>ServerName = ''b.org'', Message = ''redacted leave event'',
       AtTS = 1000, StrictValidityChecking = True\<rparr>]"

definition env_unknown_room :: env where
  "env_unknown_room = sample_env\<lparr>QueryRoomVersionForRoom := (\<lambda>room. Inl ErrRoomNoExists)\<rparr>"

definition env_resolver_down :: env where
  "env_resolver_down =
     sample_env\<lparr>QueryRoomVersionForRoom := (\<lambda>room. Inl (OtherError ''connection refused''))\<rparr>"

definition env_bad_signature :: env where
  "env_bad_signature =
     sample_env\<lparr>VerifyJSONs :=
       (\<lambda>requests. Inr (map (\<lambda>r. \<lparr>Error = Some (OtherError ''bad signature'')\<rparr>) requests))\<rparr>"

definition env_keys_down :: env where
  "env_keys_down =
     sample_env\<lparr>VerifyJSONs := (\<lambda>requests. Inl (OtherError ''key server unreachable''))\<rparr>"

definition env_join_event :: env where
  "env_join_event = sample_env\<lparr>Membership := (\<lambda>event. Inr ''join'')\<rparr>"

text \<open>
  A room with state: the create event and the join of \<open>@u:b.org\<close>. In
  \<open>env_room_with_state\<close> event construction knows only the room \<open>!r:a.org\<close> and
  returns that state, and the authorization check allows an event only against auth
  events that hold both the create event and the join.
\<close>

definition sample_create_event :: Event where
  "sample_create_event =
     \<lparr>event_RoomID = ''!r:a.org'', event_EventID = ''$create'', event_Origin = ''a.org'',
      event_OriginServerTS = 1, event_JSON = ''create event''\<rparr>"

definition sample_join_event :: Event where
  "sample_join_event =
     \<lparr>event_RoomID = ''!r:a.org'', event_EventID = ''$join'', event_Origin = ''b.org'',
      event_OriginServerTS = 2, event_JSON = ''join event of @u:b.org''\<rparr>"

definition sample_draft_event :: Event where
  "sample_draft_event =
     \<lparr>event_RoomID = ''!r:a.org'', event_EventID = ''$draft'', event_Origin = ''a.org'',
      event_OriginServerTS = 3, event_JSON = ''unsigned leave event''\<rparr>"

definition sample_state :: "HeaderedEvent list" where
  "sample_state = [Headered sample_create_event ''1'', Headered sample_join_event ''1'']"

definition env_room_with_state :: env where
  "env_room_with_state =
     sample_env\<lparr>
       BuildEvent := (\<lambda>builder cfg now.
         if RoomID builder = ''!r:a.org'' then
           Inr (sample_draft_event, builder\<lparr>Other := ''prev_events, auth_events, depth''\<rparr>,
                \<lparr>StateEvents = sample_state\<rparr>)
         else Inl ErrRoomNoExists),
       Allowed := (\<lambda>event provider.
         case provider of NewAuthEvents stateEvents \<Rightarrow>
           if sample_create_event \<in> set stateEvents \<and> sample_join_event \<in> set stateEvents
           then None else Some (OtherError ''sender is not in the room''))\<rparr>"

definition env_membership_unreadable :: env where
  "env_membership_unreadable =
     sample_env\<lparr>Membership := (\<lambda>event. Inl (OtherError ''membership is not a string''))\<rparr>"

lemmas sample_defs =
  sample_env_def sample_event_def sample_cfg_def request_from_def SplitID_sample_def
  sample_verifyRequests_def env_unknown_room_def env_resolver_down_def
  env_bad_signature_def env_keys_down_def env_join_event_def

section \<open>Properties of \<open>MakeLeave\<close>\<close>




lemma MakeLeave_ok_steps:
  assumes "MakeLeave env request cfg roomID userID = (t, Return (JSONResponse StatusOK body))"
  shows "\<exists>ver localpart b1 event template queryRes.
           QueryRoomVersionForRoom env roomID = Inr ver
         \<and> SplitID env (CHR ''@'') userID = Inr (localpart, request_Origin request)
         \<and> SetContent env
               \<lparr>Sender = userID, RoomID = roomID, Type = ''m.room.member'',
                StateKey = Some userID, Content = [], Other = []\<rparr>
               [(''membership'', Leave)]
             = (None, b1)
         \<and> BuildEvent env b1 cfg (Now env) = Inr (event, template, queryRes)
         \<and> Allowed env event (NewAuthEvents (map headered_Event (StateEvents queryRes))) = None
         \<and> body = MakeLeaveBody ver template
         \<and> t = [QueryRoomVersionForRoomCall roomID, BuildEventCall b1 cfg (Now env),
                AllowedCall event (NewAuthEvents (map headered_Event (StateEvents queryRes)))]"
  using assms
  by (simp add: MakeLeave_def Let_def InternalServerError_def
           split: sum.splits prod.splits option.splits if_splits go_error.splits)

lemma MakeLeave_steps_ok:
  assumes "QueryRoomVersionForRoom env roomID = Inr ver"
    and "SplitID env (CHR ''@'') userID = Inr (localpart, request_Origin request)"
    and "SetContent env
           \<lparr>Sender = userID, RoomID = roomID, Type = ''m.room.member'',
            StateKey = Some userID, Content = [], Other = []\<rparr>
           [(''membership'', Leave)]
         = (None, b1)"
    and "BuildEvent env b1 cfg (Now env) = Inr (event, template, queryRes)"
    and "Allowed env event (NewAuthEvents (map headered_Event (StateEvents queryRes))) = None"
  shows "MakeLeave env request cfg roomID userID =
           ([QueryRoomVersionForRoomCall roomID, BuildEventCall b1 cfg (Now env),
             AllowedCall event (NewAuthEvents (map headered_Event (StateEvents queryRes)))],
            Return (JSONResponse StatusOK (MakeLeaveBody ver template)))"
  using assms by (simp add: MakeLeave_def Let_def)

text \<open>
  C4: for a room whose version resolves and a user whose domain is the calling server,
  when the content is set, \<open>BuildEvent\<close> builds the event for this room and the
  authorization check allows that event against the state events the same \<open>BuildEvent\<close>
  call returned, \<open>MakeLeave\<close> answers 200 with the resolved room version and the
  template, whose sender and state key are the user and whose content is
  \<open>membership = leave\<close>; the authorization check is the last call before the return.
  Conversely every 200 answer of \<open>MakeLeave\<close> arises this way, so a template is never
  returned without having passed that check. The event library is taken at its contract:
  \<open>SetContent\<close> stores the content it is given, and \<open>BuildEvent\<close> leaves sender, state
  key and content of the builder alone.
\<close>

theorem MakeLeave_success_template:
  assumes set_content:
      "\<forall>b c b'. SetContent env b c = (None, b') \<longrightarrow> b' = b\<lparr>Content := c\<rparr>"
    and build_keeps:
      "\<forall>b ev b' q. BuildEvent env b cfg (Now env) = Inr (ev, b', q) \<longrightarrow>
         Sender b' = Sender b \<and> StateKey b' = StateKey b \<and> Content b' = Content b"
  shows "(\<forall>ver localpart event template queryRes.
            QueryRoomVersionForRoom env roomID = Inr ver
          \<and> SplitID env (CHR ''@'') userID = Inr (localpart, request_Origin request)
          \<and> fst (SetContent env
                   \<lparr>Sender = userID, RoomID = roomID, Type = ''m.room.member'',
                    StateKey = Some userID, Content = [], Other = []\<rparr>
                   [(''membership'', ''leave'')]) = None
          \<and> BuildEvent env
                \<lparr>Sender = userID, RoomID = roomID, Type = ''m.room.member'',
                 StateKey = Some userID, Content = [(''membership'', ''leave'')], Other = []\<rparr>
                cfg (Now env)
              = Inr (event, template, queryRes)
          \<and> Allowed env event (NewAuthEvents (map headered_Event (StateEvents queryRes))) = None
          \<longrightarrow>
            MakeLeave env request cfg roomID userID =
              ([QueryRoomVersionForRoomCall roomID,
                BuildEventCall
                  \<lparr>Sender = userID, RoomID = roomID, Type = ''m.room.member'',
                   StateKey = Some userID, Content = [(''membership'', ''leave'')], Other = []\<rparr>
                  cfg (Now env),
                AllowedCall event (NewAuthEvents (map headered_Event (StateEvents queryRes)))],
               Return (JSONResponse StatusOK (MakeLeaveBody ver template)))
          \<and> Sender template = userID \<and> StateKey template = Some userID
          \<and> Content template = [(''membership'', ''leave'')])
       \<and> (\<forall>t body.
            MakeLeave env request cfg roomID userID = (t, Return (JSONResponse StatusOK body))
          \<longrightarrow>
            (\<exists>ver localpart event template queryRes.
               body = MakeLeaveBody ver template
             \<and> QueryRoomVersionForRoom env roomID = Inr ver
             \<and> SplitID env (CHR ''@'') userID = Inr (localpart, request_Origin request)
             \<and> Sender template = userID \<and> StateKey template = Some userID
             \<and> Content template = [(''membership'', ''leave'')]
             \<and> BuildEvent env
                   \<lparr>Sender = userID, RoomID = roomID, Type = ''m.room.member'',
                    StateKey = Some userID, Content = [(''membership'', ''leave'')], Other = []\<rparr>
                   cfg (Now env)
                 = Inr (event, template, queryRes)
             \<and> Allowed env event (NewAuthEvents (map headered_Event (StateEvents queryRes))) = None
             \<and> t = [QueryRoomVersionForRoomCall roomID,
                    BuildEventCall
                      \<lparr>Sender = userID, RoomID = roomID, Type = ''m.room.member'',
                       StateKey = Some userID, Content = [(''membership'', ''leave'')], Other = []\<rparr>
                      cfg (Now env),
                    AllowedCall event (NewAuthEvents (map headered_Event (StateEvents queryRes)))]))"
proof (rule conjI; (rule allI)+; rule impI)
  let ?b0 = "\<lparr>Sender = userID, RoomID = roomID, Type = ''m.room.member'',
              StateKey = Some userID, Content = [], Other = []\<rparr>"
  let ?b1 = "\<lparr>Sender = userID, RoomID = roomID, Type = ''m.room.member'',
              StateKey = Some userID, Content = [(''membership'', ''leave'')], Other = []\<rparr>"
  fix ver localpart event template queryRes
  assume A: "QueryRoomVersionForRoom env roomID = Inr ver
          \<and> SplitID env (CHR ''@'') userID = Inr (localpart, request_Origin request)
          \<and> fst (SetContent env ?b0 [(''membership'', ''leave'')]) = None
          \<and> BuildEvent env ?b1 cfg (Now env) = Inr (event, template, queryRes)
          \<and> Allowed env event (NewAuthEvents (map headered_Event (StateEvents queryRes))) = None"
  then have ver: "QueryRoomVersionForRoom env roomID = Inr ver"
    and user: "SplitID env (CHR ''@'') userID = Inr (localpart, request_Origin request)"
    and sc0: "fst (SetContent env ?b0 [(''membership'', ''leave'')]) = None"
    and be: "BuildEvent env ?b1 cfg (Now env) = Inr (event, template, queryRes)"
    and al: "Allowed env event (NewAuthEvents (map headered_Event (StateEvents queryRes))) = None"
    by simp_all
  from sc0 obtain b1 where sc1: "SetContent env ?b0 [(''membership'', ''leave'')] = (None, b1)"
    by (cases "SetContent env ?b0 [(''membership'', ''leave'')]") simp
  from set_content [rule_format, OF sc1] have "b1 = ?b1"
    by simp
  with sc1 have sc: "SetContent env ?b0 [(''membership'', Leave)] = (None, ?b1)"
    by (simp add: Leave_def)
  from MakeLeave_steps_ok [OF ver user sc be al]
  have run: "MakeLeave env request cfg roomID userID =
              ([QueryRoomVersionForRoomCall roomID, BuildEventCall ?b1 cfg (Now env),
                AllowedCall event (NewAuthEvents (map headered_Event (StateEvents queryRes)))],
               Return (JSONResponse StatusOK (MakeLeaveBody ver template)))" .
  from build_keeps [rule_format, OF be] have fields: "Sender template = userID"
      "StateKey template = Some userID" "Content template = [(''membership'', ''leave'')]"
    by simp_all
  from run fields
  show "MakeLeave env request cfg roomID userID =
              ([QueryRoomVersionForRoomCall roomID, BuildEventCall ?b1 cfg (Now env),
                AllowedCall event (NewAuthEvents (map headered_Event (StateEvents queryRes)))],
               Return (JSONResponse StatusOK (MakeLeaveBody ver template)))
          \<and> Sender template = userID \<and> StateKey template = Some userID
          \<and> Content template = [(''membership'', ''leave'')]"
    by (intro conjI)
next
  let ?b0 = "\<lparr>Sender = userID, RoomID = roomID, Type = ''m.room.member'',
              StateKey = Some userID, Content = [], Other = []\<rparr>"
  let ?b1 = "\<lparr>Sender = userID, RoomID = roomID, Type = ''m.room.member'',
              StateKey = Some userID, Content = [(''membership'', ''leave'')], Other = []\<rparr>"
  fix t body
  assume ok: "MakeLeave env request cfg roomID userID = (t, Return (JSONResponse StatusOK body))"
  from MakeLeave_ok_steps [OF ok] obtain ver localpart b1 event template queryRes where
        ver: "QueryRoomVersionForRoom env roomID = Inr ver"
    and user: "SplitID env (CHR ''@'') userID = Inr (localpart, request_Origin request)"
    and sc: "SetContent env ?b0 [(''membership'', Leave)] = (None, b1)"
    and be: "BuildEvent env b1 cfg (Now env) = Inr (event, template, queryRes)"
    and al: "Allowed env event (NewAuthEvents (map headered_Event (StateEvents queryRes))) = None"
    and body: "body = MakeLeaveBody ver template"
    and t: "t = [QueryRoomVersionForRoomCall roomID, BuildEventCall b1 cfg (Now env),
                 AllowedCall event (NewAuthEvents (map headered_Event (StateEvents queryRes)))]"
    by (elim exE conjE)
  from set_content [rule_format, OF sc] have b1: "b1 = ?b1"
    by (simp add: Leave_def)
  from build_keeps [rule_format, OF be] have fields: "Sender template = userID"
      "StateKey template = Some userID" "Content template = [(''membership'', ''leave'')]"
    by (simp_all add: b1)
  from be have be': "BuildEvent env ?b1 cfg (Now env) = Inr (event, template, queryRes)"
    by (simp only: b1)
  from t have t': "t = [QueryRoomVersionForRoomCall roomID, BuildEventCall ?b1 cfg (Now env),
                 AllowedCall event (NewAuthEvents (map headered_Event (StateEvents queryRes)))]"
    by (simp only: b1)
  from body ver user fields be' al t'
  show "\<exists>ver localpart event template queryRes.
               body = MakeLeaveBody ver template
             \<and> QueryRoomVersionForRoom env roomID = Inr ver
             \<and> SplitID env (CHR ''@'') userID = Inr (localpart, request_Origin request)
             \<and> Sender template = userID \<and> StateKey template = Some userID
             \<and> Content template = [(''membership'', ''leave'')]
             \<and> BuildEvent env ?b1 cfg (Now env) = Inr (event, template, queryRes)
             \<and> Allowed env event (NewAuthEvents (map headered_Event (StateEvents queryRes))) = None
             \<and> t = [QueryRoomVersionForRoomCall roomID, BuildEventCall ?b1 cfg (Now env),
                    AllowedCall event (NewAuthEvents (map headered_Event (StateEvents queryRes)))]"
    by (intro exI conjI)
qed

theorem MakeLeave_success_template_witness:
  "QueryRoomVersionForRoom env_room_with_state ''!r:a.org'' = Inr ''1''
   \<and> SplitID env_room_with_state (CHR ''@'') ''@u:b.org''
       = Inr (''u'', request_Origin (request_from ''b.org''))
   \<and> Allowed env_room_with_state sample_draft_event (NewAuthEvents []) \<noteq> None
   \<and> Allowed env_room_with_state sample_draft_event
        (NewAuthEvents (map headered_Event sample_state)) = None
   \<and> MakeLeave env_room_with_state (request_from ''b.org'') sample_cfg ''!r:a.org'' ''@u:b.org''
       = ([QueryRoomVersionForRoomCall ''!r:a.org'',
           BuildEventCall
             \<lparr>Sender = ''@u:b.org'', RoomID = ''!r:a.org'', Type = ''m.room.member'',
              StateKey = Some ''@u:b.org'', Content = [(''membership'', ''leave'')], Other = []\<rparr>
             sample_cfg 0,
           AllowedCall sample_draft_event
             (NewAuthEvents [sample_create_event, sample_join_event])],
          Return (JSONResponse 200 (MakeLeaveBody ''1''
             \<lparr>Sender = ''@u:b.org'', RoomID = ''!r:a.org'', Type = ''m.room.member'',
              StateKey = Some ''@u:b.org'', Content = [(''membership'', ''leave'')],
              Other = ''prev_events, auth_events, depth''\<rparr>)))"
proof -
  let ?b0 = "\<lparr>Sender = ''@u:b.org'', RoomID = ''!r:a.org'', Type = ''m.room.member'',
              StateKey = Some ''@u:b.org'', Content = [], Other = []\<rparr>"
  let ?b1 = "\<lparr>Sender = ''@u:b.org'', RoomID = ''!r:a.org'', Type = ''m.room.member'',
              StateKey = Some ''@u:b.org'', Content = [(''membership'', ''leave'')], Other = []\<rparr>"
  let ?tmpl = "\<lparr>Sender = ''@u:b.org'', RoomID = ''!r:a.org'', Type = ''m.room.member'',
              StateKey = Some ''@u:b.org'', Content = [(''membership'', ''leave'')],
              Other = ''prev_events, auth_events, depth''\<rparr>"
  have sc: "\<forall>b c b'. SetContent env_room_with_state b c = (None, b') \<longrightarrow> b' = b\<lparr>Content := c\<rparr>"
    by (simp add: env_room_with_state_def sample_env_def)
  have bk: "\<forall>b ev b' q. BuildEvent env_room_with_state b sample_cfg (Now env_room_with_state)
                = Inr (ev, b', q) \<longrightarrow>
              Sender b' = Sender b \<and> StateKey b' = StateKey b \<and> Content b' = Content b"
    by (auto simp: env_room_with_state_def sample_env_def split: if_splits)
  have h1: "QueryRoomVersionForRoom env_room_with_state ''!r:a.org'' = Inr ''1''"
    by (simp add: env_room_with_state_def sample_env_def)
  have h2: "SplitID env_room_with_state (CHR ''@'') ''@u:b.org''
              = Inr (''u'', request_Origin (request_from ''b.org''))"
    by (simp add: env_room_with_state_def sample_env_def SplitID_sample_def request_from_def)
  have h3: "fst (SetContent env_room_with_state ?b0 [(''membership'', ''leave'')]) = None"
    by (simp add: env_room_with_state_def sample_env_def)
  have h4: "BuildEvent env_room_with_state ?b1 sample_cfg (Now env_room_with_state)
              = Inr (sample_draft_event, ?tmpl, \<lparr>StateEvents = sample_state\<rparr>)"
    by (simp add: env_room_with_state_def sample_env_def)
  have st: "map headered_Event sample_state = [sample_create_event, sample_join_event]"
    by (simp add: sample_state_def Headered_def)
  have h5: "Allowed env_room_with_state sample_draft_event
              (NewAuthEvents (map headered_Event (StateEvents \<lparr>StateEvents = sample_state\<rparr>))) = None"
    by (simp add: st env_room_with_state_def sample_env_def)
  have h6: "Allowed env_room_with_state sample_draft_event (NewAuthEvents []) \<noteq> None"
    by (simp add: env_room_with_state_def sample_env_def)
  have now: "Now env_room_with_state = 0"
    by (simp add: env_room_with_state_def sample_env_def)
  from MakeLeave_success_template [OF sc bk, of "''!r:a.org''" "''@u:b.org''" "request_from ''b.org''",
      THEN conjunct1, rule_format, OF conjI [OF h1 conjI [OF h2 conjI [OF h3 conjI [OF h4 h5]]]]]
  have run: "MakeLeave env_room_with_state (request_from ''b.org'') sample_cfg ''!r:a.org'' ''@u:b.org''
       = ([QueryRoomVersionForRoomCall ''!r:a.org'', BuildEventCall ?b1 sample_cfg 0,
           AllowedCall sample_draft_event (NewAuthEvents [sample_create_event, sample_join_event])],
          Return (JSONResponse 200 (MakeLeaveBody ''1'' ?tmpl)))"
    by (simp add: st now)
  from h5 have h5': "Allowed env_room_with_state sample_draft_event
        (NewAuthEvents (map headered_Event sample_state)) = None"
    by simp
  from h1 h2 h6 h5' run show ?thesis
    by (intro conjI)
qed

text \<open>
  C5 (as stated): every \<open>MakeLeave\<close> request whose user domain differs from the calling
  server fails with the origin mismatch (403), regardless of room state. The handler
  resolves the room version first: for a room the resolver has no version for, the
  user \<open>@u:b.org\<close> and the caller \<open>c.org\<close>, the response is the internal failure.
\<close>

theorem MakeLeave_foreign_user_counterexample:
  "SplitID sample_env (CHR ''@'') ''@u:b.org'' = Inr (''u'', ''b.org'')
   \<and> ''b.org'' \<noteq> request_Origin (request_from ''c.org'')
   \<and> snd (MakeLeave sample_env (request_from ''c.org'') sample_cfg ''!gone:a.org'' ''@u:b.org'')
       = Return (JSONResponse 500 (ResponseValue (JSONResponse 500 InternalFailure)))
   \<and> snd (MakeLeave sample_env (request_from ''c.org'') sample_cfg ''!gone:a.org'' ''@u:b.org'')
       \<noteq> Return (JSONResponse StatusForbidden
             (Forbidden ''The leave must be sent by the server of the user''))"
  by (simp add: MakeLeave_def InternalServerError_def sample_defs)

text \<open>
  C5 (amended): every \<open>MakeLeave\<close> request whose room version resolves and whose user
  identifier splits into a domain that differs from the calling server fails with the
  origin mismatch (403 Forbidden); no event is built and no authorization is evaluated, so
  the outcome does not depend on the rest of the room state.
\<close>

theorem MakeLeave_foreign_user_forbidden:
  assumes "QueryRoomVersionForRoom env roomID = Inr ver"
    and "SplitID env (CHR ''@'') userID = Inr (localpart, domain)"
    and "domain \<noteq> request_Origin request"
  shows "MakeLeave env request cfg roomID userID =
           ([QueryRoomVersionForRoomCall roomID],
            Return (JSONResponse StatusForbidden
              (Forbidden ''The leave must be sent by the server of the user'')))"
  using assms by (simp add: MakeLeave_def)

theorem MakeLeave_foreign_user_forbidden_witness:
  "QueryRoomVersionForRoom sample_env ''!r:a.org'' = Inr ''1''
   \<and> SplitID sample_env (CHR ''@'') ''@u:b.org'' = Inr (''u'', ''b.org'')
   \<and> ''b.org'' \<noteq> request_Origin (request_from ''c.org'')
   \<and> MakeLeave sample_env (request_from ''c.org'') sample_cfg ''!r:a.org'' ''@u:b.org''
       = ([QueryRoomVersionForRoomCall ''!r:a.org''],
          Return (JSONResponse 403 (Forbidden ''The leave must be sent by the server of the user'')))"
proof -
  have h1: "QueryRoomVersionForRoom sample_env ''!r:a.org'' = Inr ''1''"
    by (simp add: sample_defs)
  have h2: "SplitID sample_env (CHR ''@'') ''@u:b.org'' = Inr (''u'', ''b.org'')"
    by (simp add: sample_defs)
  have h3: "''b.org'' \<noteq> request_Origin (request_from ''c.org'')"
    by (simp add: sample_defs)
  from MakeLeave_foreign_user_forbidden [OF h1 h2 h3, of sample_cfg] h1 h2 h3
  show ?thesis by simp
qed

text \<open>
  C8: whatever its outcome, \<open>MakeLeave\<close> never calls \<open>SendEvents\<close>: the only calls it
  makes are the version query, \<open>BuildEvent\<close>, the authorization check and error logging.
\<close>

theorem MakeLeave_never_submits:
  "(\<forall>events sendAsServer txnID.
      SendEventsCall events sendAsServer txnID
        \<notin> set (fst (MakeLeave env request cfg roomID userID)))
   \<and> (\<forall>c \<in> set (fst (MakeLeave env request cfg roomID userID)).
        (\<exists>room. c = QueryRoomVersionForRoomCall room)
      \<or> (\<exists>builder cfg' now. c = BuildEventCall builder cfg' now)
      \<or> (\<exists>event provider. c = AllowedCall event provider)
      \<or> (\<exists>msg err. c = LogError msg err))"
  by (auto simp: MakeLeave_def Let_def
           split: sum.splits prod.splits option.splits if_splits go_error.splits)

theorem MakeLeave_never_submits_witness:
  "AllowedCall sample_event (NewAuthEvents [])
     \<in> set (fst (MakeLeave sample_env (request_from ''b.org'') sample_cfg ''!r:a.org'' ''@u:b.org''))
   \<and> SendEventsCall [Headered sample_event ''1''] ''a.org'' None
     \<notin> set (fst (MakeLeave sample_env (request_from ''b.org'') sample_cfg ''!r:a.org'' ''@u:b.org''))"
proof -
  have h: "AllowedCall sample_event (NewAuthEvents [])
     \<in> set (fst (MakeLeave sample_env (request_from ''b.org'') sample_cfg ''!r:a.org'' ''@u:b.org''))"
    by (simp add: MakeLeave_def Let_def Leave_def sample_defs)
  from MakeLeave_never_submits [of sample_env "request_from ''b.org''" sample_cfg
      "''!r:a.org''" "''@u:b.org''"] h
  show ?thesis by blast
qed

text \<open>
  C10 (as stated): every \<open>MakeLeave\<close> request whose user identifier does not split on
  \<open>@\<close> fails with the bad-request error \<open>Invalid UserID\<close>. The handler resolves the
  room version first: for a room the resolver has no version for and the user \<open>bob\<close>,
  the response is the internal failure.
\<close>

theorem MakeLeave_malformed_user_counterexample:
  "SplitID sample_env (CHR ''@'') ''bob'' = Inl (OtherError ''invalid ID: missing sigil'')
   \<and> snd (MakeLeave sample_env (request_from ''b.org'') sample_cfg ''!gone:a.org'' ''bob'')
       = Return (JSONResponse 500 (ResponseValue (JSONResponse 500 InternalFailure)))
   \<and> snd (MakeLeave sample_env (request_from ''b.org'') sample_cfg ''!gone:a.org'' ''bob'')
       \<noteq> Return (JSONResponse StatusBadRequest (BadJSON ''Invalid UserID''))"
  by (simp add: MakeLeave_def InternalServerError_def sample_defs)

text \<open>
  C10 (amended): every \<open>MakeLeave\<close> request whose room version resolves and whose user
  identifier does not split on \<open>@\<close> fails with the bad-request error \<open>Invalid UserID\<close>
  (status 400), which is not the origin mismatch; the outcome is the same for every
  calling server, the domain comparison coming after this check.
\<close>

theorem MakeLeave_malformed_user_bad_request:
  assumes "QueryRoomVersionForRoom env roomID = Inr ver"
    and "SplitID env (CHR ''@'') userID = Inl err"
  shows "MakeLeave env request cfg roomID userID =
           ([QueryRoomVersionForRoomCall roomID],
            Return (JSONResponse StatusBadRequest (BadJSON ''Invalid UserID'')))
       \<and> snd (MakeLeave env request cfg roomID userID)
           \<noteq> Return (JSONResponse StatusForbidden
                 (Forbidden ''The leave must be sent by the server of the user''))
       \<and> MakeLeave env (request\<lparr>request_Origin := origin\<rparr>) cfg roomID userID
           = MakeLeave env request cfg roomID userID"
  using assms by (simp add: MakeLeave_def)

theorem MakeLeave_malformed_user_bad_request_witness:
  "QueryRoomVersionForRoom sample_env ''!r:a.org'' = Inr ''1''
   \<and> SplitID sample_env (CHR ''@'') ''bob'' = Inl (OtherError ''invalid ID: missing sigil'')
   \<and> MakeLeave sample_env (request_from ''b.org'') sample_cfg ''!r:a.org'' ''bob''
       = ([QueryRoomVersionForRoomCall ''!r:a.org''],
          Return (JSONResponse 400 (BadJSON ''Invalid UserID'')))"
proof -
  have h1: "QueryRoomVersionForRoom sample_env ''!r:a.org'' = Inr ''1''"
    by (simp add: sample_defs)
  have h2: "SplitID sample_env (CHR ''@'') ''bob'' = Inl (OtherError ''invalid ID: missing sigil'')"
    by (simp add: sample_defs)
  from MakeLeave_malformed_user_bad_request [OF h1 h2, of "request_from ''b.org''" sample_cfg] h1 h2
  show ?thesis by simp
qed

section \<open>Properties of \<open>SendLeave\<close>\<close>

text \<open>
  C2: when the parsed event disagrees with the request (its room ID differs from the
  path room ID, or its event ID from the path event ID, or its origin from the calling
  server), \<open>SendLeave\<close> fails with the matching error, the first of the three in this
  order: 400 for the room ID, 400 for the event ID, 403 for the origin. The only calls
  made are the version query and the parse: \<open>VerifyJSONs\<close> is not called, and the
  result is the same whatever the key ring would answer.
\<close>

theorem SendLeave_mismatch_before_verification:
  assumes "QueryRoomVersionForRoom env roomID = Inr ver"
    and "NewEventFromUntrustedJSON env (request_Content request) ver = Inr event"
    and "event_RoomID event \<noteq> roomID \<or> event_EventID event \<noteq> eventID
         \<or> event_Origin event \<noteq> request_Origin request"
  shows "SendLeave env request cfg roomID eventID =
           ([QueryRoomVersionForRoomCall roomID,
             NewEventFromUntrustedJSONCall (request_Content request) ver],
            Return (if event_RoomID event \<noteq> roomID then
                      JSONResponse StatusBadRequest (BadJSON
                        ''The room ID in the request path must match the room ID in the leave event JSON'')
                    else if event_EventID event \<noteq> eventID then
                      JSONResponse StatusBadRequest (BadJSON
                        ''The event ID in the request path must match the event ID in the leave event JSON'')
                    else
                      JSONResponse StatusForbidden (Forbidden
                        ''The leave must be sent by the server it originated on'')))
         \<and> (\<forall>reqs. VerifyJSONsCall reqs \<notin> set (fst (SendLeave env request cfg roomID eventID)))
         \<and> (\<forall>keys. SendLeave (env\<lparr>VerifyJSONs := keys\<rparr>) request cfg roomID eventID =
                    SendLeave env request cfg roomID eventID)"
  using assms by (auto simp: SendLeave_def Let_def)

theorem SendLeave_mismatch_before_verification_witness:
  "QueryRoomVersionForRoom sample_env ''!r:a.org'' = Inr ''1''
   \<and> NewEventFromUntrustedJSON sample_env (request_Content (request_from ''c.org'')) ''1''
       = Inr sample_event
   \<and> event_Origin sample_event \<noteq> request_Origin (request_from ''c.org'')
   \<and> SendLeave sample_env (request_from ''c.org'') sample_cfg ''!r:a.org'' ''$e1''
       = ([QueryRoomVersionForRoomCall ''!r:a.org'',
           NewEventFromUntrustedJSONCall ''signed leave event'' ''1''],
          Return (JSONResponse 403 (Forbidden
            ''The leave must be sent by the server it originated on'')))"
proof -
  have h1: "QueryRoomVersionForRoom sample_env ''!r:a.org'' = Inr ''1''"
    by (simp add: sample_defs)
  have h2: "NewEventFromUntrustedJSON sample_env (request_Content (request_from ''c.org'')) ''1''
              = Inr sample_event"
    by (simp add: sample_env_def request_from_def)
  have h3: "event_Origin sample_event \<noteq> request_Origin (request_from ''c.org'')"
    by (simp add: sample_defs)
  have h4: "event_RoomID sample_event = ''!r:a.org''" "event_EventID sample_event = ''$e1''"
           "request_Content (request_from ''c.org'') = ''signed leave event''"
    by (simp_all add: sample_defs)
  from h3 have h5: "event_RoomID sample_event \<noteq> ''!r:a.org'' \<or> event_EventID sample_event \<noteq> ''$e1''
         \<or> event_Origin sample_event \<noteq> request_Origin (request_from ''c.org'')"
    by simp
  from SendLeave_mismatch_before_verification [OF h1 h2 h5, of sample_cfg] h1 h2 h3 h4
  show ?thesis by simp
qed

text \<open>
  C3: when the three cross-checks pass, \<open>SendLeave\<close> calls \<open>VerifyJSONs\<close> once, with
  one request: the server is the event's origin, the message is the JSON of the redacted
  event, the time is the event's \<open>origin_server_ts\<close>, and strict validity checking is
  on. If \<open>VerifyJSONs\<close> itself returns an error the response is the internal failure
  (500); if the first result carries an error the response is 403 Forbidden; the two
  responses differ.
\<close>

theorem SendLeave_signature_verification:
  assumes "QueryRoomVersionForRoom env roomID = Inr ver"
    and "NewEventFromUntrustedJSON env (request_Content request) ver = Inr event"
    and "event_RoomID event = roomID" and "event_EventID event = eventID"
    and "event_Origin event = request_Origin request"
    and "verifyRequests = [\<lparr>ServerName = event_Origin event,
                            Message = event_JSON (Redact env event),
                            AtTS = event_OriginServerTS event,
                            StrictValidityChecking = True\<rparr>]"
  shows "(\<forall>reqs. VerifyJSONsCall reqs \<in> set (fst (SendLeave env request cfg roomID eventID))
                 \<longleftrightarrow> reqs = verifyRequests)
       \<and> (\<forall>err. VerifyJSONs env verifyRequests = Inl err \<longrightarrow>
             snd (SendLeave env request cfg roomID eventID) = Return InternalServerError)
       \<and> (\<forall>r rs err. VerifyJSONs env verifyRequests = Inr (r # rs) \<and> Error r = Some err \<longrightarrow>
             snd (SendLeave env request cfg roomID eventID) =
               Return (JSONResponse StatusForbidden (Forbidden
                 ''The leave must be signed by the server it originated on'')))
       \<and> InternalServerError \<noteq> JSONResponse StatusForbidden (Forbidden
                 ''The leave must be signed by the server it originated on'')"
  using assms
  by (auto simp: SendLeave_def Let_def InternalServerError_def
           split: sum.splits list.splits option.splits)

theorem SendLeave_signature_verification_witness:
  "VerifyJSONs env_bad_signature sample_verifyRequests
     = Inr [\<lparr>Error = Some (OtherError ''bad signature'')\<rparr>]
   \<and> snd (SendLeave env_bad_signature (request_from ''b.org'') sample_cfg ''!r:a.org'' ''$e1'')
       = Return (JSONResponse 403 (Forbidden
           ''The leave must be signed by the server it originated on''))
   \<and> VerifyJSONs env_keys_down sample_verifyRequests = Inl (OtherError ''key server unreachable'')
   \<and> snd (SendLeave env_keys_down (request_from ''b.org'') sample_cfg ''!r:a.org'' ''$e1'')
       = Return (JSONResponse 500 InternalFailure)
   \<and> VerifyJSONsCall sample_verifyRequests
       \<in> set (fst (SendLeave env_bad_signature (request_from ''b.org'') sample_cfg ''!r:a.org'' ''$e1''))"
proof -
  have ev: "event_RoomID sample_event = ''!r:a.org''" "event_EventID sample_event = ''$e1''"
           "event_Origin sample_event = request_Origin (request_from ''b.org'')"
    by (simp_all add: sample_defs)
  have a1: "QueryRoomVersionForRoom env_bad_signature ''!r:a.org'' = Inr ''1''"
    by (simp add: sample_defs)
  have a2: "NewEventFromUntrustedJSON env_bad_signature (request_Content (request_from ''b.org'')) ''1''
              = Inr sample_event"
    by (simp add: env_bad_signature_def sample_env_def request_from_def)
  have a3: "sample_verifyRequests = [\<lparr>ServerName = event_Origin sample_event,
                            Message = event_JSON (Redact env_bad_signature sample_event),
                            AtTS = event_OriginServerTS sample_event,
                            StrictValidityChecking = True\<rparr>]"
    by (simp add: sample_defs)
  have a4: "VerifyJSONs env_bad_signature sample_verifyRequests
              = Inr [\<lparr>Error = Some (OtherError ''bad signature'')\<rparr>]"
    by (simp add: sample_defs)
  have b1: "QueryRoomVersionForRoom env_keys_down ''!r:a.org'' = Inr ''1''"
    by (simp add: sample_defs)
  have b2: "NewEventFromUntrustedJSON env_keys_down (request_Content (request_from ''b.org'')) ''1''
              = Inr sample_event"
    by (simp add: env_keys_down_def sample_env_def request_from_def)
  have b3: "sample_verifyRequests = [\<lparr>ServerName = event_Origin sample_event,
                            Message = event_JSON (Redact env_keys_down sample_event),
                            AtTS = event_OriginServerTS sample_event,
                            StrictValidityChecking = True\<rparr>]"
    by (simp add: sample_defs)
  have b4: "VerifyJSONs env_keys_down sample_verifyRequests
              = Inl (OtherError ''key server unreachable'')"
    by (simp add: sample_defs)
  note A = SendLeave_signature_verification [OF a1 a2 ev a3, of sample_cfg]
  note B = SendLeave_signature_verification [OF b1 b2 ev b3, of sample_cfg]
  from A a4 have r1: "snd (SendLeave env_bad_signature (request_from ''b.org'') sample_cfg ''!r:a.org'' ''$e1'')
       = Return (JSONResponse 403 (Forbidden
           ''The leave must be signed by the server it originated on''))"
    by simp
  from A have r2: "VerifyJSONsCall sample_verifyRequests
       \<in> set (fst (SendLeave env_bad_signature (request_from ''b.org'') sample_cfg ''!r:a.org'' ''$e1''))"
    by simp
  from B b4 have r3: "snd (SendLeave env_keys_down (request_from ''b.org'') sample_cfg ''!r:a.org'' ''$e1'')
       = Return (JSONResponse 500 InternalFailure)"
    by (simp add: InternalServerError_def)
  from a4 r1 b4 r3 r2 show ?thesis by (intro conjI)
qed

text \<open>
  C6 (as stated): every correctly addressed and correctly signed \<open>SendLeave\<close> request
  whose membership is anything other than \<open>leave\<close> is rejected with the membership
  error. The handler does this only when the membership can be read: for an event whose
  membership cannot be read (\<open>Membership\<close> returns an error, leave.go:183-185) the
  response is the internal failure, not the membership error.
\<close>

theorem SendLeave_unreadable_membership_counterexample:
  "NewEventFromUntrustedJSON env_membership_unreadable
      (request_Content (request_from ''b.org'')) ''1'' = Inr sample_event
   \<and> event_RoomID sample_event = ''!r:a.org'' \<and> event_EventID sample_event = ''$e1''
   \<and> event_Origin sample_event = request_Origin (request_from ''b.org'')
   \<and> VerifyJSONs env_membership_unreadable sample_verifyRequests = Inr [\<lparr>Error = None\<rparr>]
   \<and> Membership env_membership_unreadable sample_event \<noteq> Inr Leave
   \<and> snd (SendLeave env_membership_unreadable (request_from ''b.org'') sample_cfg
             ''!r:a.org'' ''$e1'')
       = Return (JSONResponse 500 InternalFailure)
   \<and> snd (SendLeave env_membership_unreadable (request_from ''b.org'') sample_cfg
             ''!r:a.org'' ''$e1'')
       \<noteq> Return (JSONResponse StatusBadRequest (BadJSON
             ''The membership in the event content must be set to leave''))"
  by (simp add: SendLeave_def Let_def InternalServerError_def Leave_def
        env_membership_unreadable_def sample_defs)

text \<open>
  C6 (amended): for every correctly addressed (the three cross-checks pass) and
  correctly signed (the first verification result carries no error) \<open>SendLeave\<close>
  request: if the event's membership reads as a value other than \<open>leave\<close>, the answer
  is 400 with the membership error; if reading the membership fails, the answer is the
  internal failure (500); in both cases \<open>SendEvents\<close> is never called.
\<close>

theorem SendLeave_membership_not_leave:
  assumes "QueryRoomVersionForRoom env roomID = Inr ver"
    and "NewEventFromUntrustedJSON env (request_Content request) ver = Inr event"
    and "event_RoomID event = roomID" and "event_EventID event = eventID"
    and "event_Origin event = request_Origin request"
    and "VerifyJSONs env [\<lparr>ServerName = event_Origin event,
                            Message = event_JSON (Redact env event),
                            AtTS = event_OriginServerTS event,
                            StrictValidityChecking = True\<rparr>] = Inr (r # rs)"
    and "Error r = None"
  shows "(\<forall>mem. Membership env event = Inr mem \<and> mem \<noteq> Leave \<longrightarrow>
            snd (SendLeave env request cfg roomID eventID) =
              Return (JSONResponse StatusBadRequest (BadJSON
                ''The membership in the event content must be set to leave'')))
       \<and> (\<forall>err. Membership env event = Inl err \<longrightarrow>
            snd (SendLeave env request cfg roomID eventID) = Return InternalServerError)
       \<and> (Membership env event \<noteq> Inr Leave \<longrightarrow>
            (\<forall>events sendAsServer txnID.
               SendEventsCall events sendAsServer txnID
                 \<notin> set (fst (SendLeave env request cfg roomID eventID))))"
  using assms
  by (auto simp: SendLeave_def Let_def split: sum.splits)

theorem SendLeave_membership_not_leave_witness:
  "Membership env_join_event sample_event = Inr ''join''
   \<and> ''join'' \<noteq> Leave
   \<and> snd (SendLeave env_join_event (request_from ''b.org'') sample_cfg ''!r:a.org'' ''$e1'')
       = Return (JSONResponse 400 (BadJSON
           ''The membership in the event content must be set to leave''))
   \<and> SendEventsCall [Headered sample_event ''1''] ''a.org'' None
       \<notin> set (fst (SendLeave env_join_event (request_from ''b.org'') sample_cfg ''!r:a.org'' ''$e1''))
   \<and> Membership env_membership_unreadable sample_event
       = Inl (OtherError ''membership is not a string'')
   \<and> snd (SendLeave env_membership_unreadable (request_from ''b.org'') sample_cfg
             ''!r:a.org'' ''$e1'')
       = Return (JSONResponse 500 InternalFailure)
   \<and> SendEventsCall [Headered sample_event ''1''] ''a.org'' None
       \<notin> set (fst (SendLeave env_membership_unreadable (request_from ''b.org'') sample_cfg
                       ''!r:a.org'' ''$e1''))"
proof -
  have ev: "event_RoomID sample_event = ''!r:a.org''" "event_EventID sample_event = ''$e1''"
           "event_Origin sample_event = request_Origin (request_from ''b.org'')"
    by (simp_all add: sample_defs)
  have a1: "QueryRoomVersionForRoom env_join_event ''!r:a.org'' = Inr ''1''"
    by (simp add: sample_defs)
  have a2: "NewEventFromUntrustedJSON env_join_event (request_Content (request_from ''b.org'')) ''1''
              = Inr sample_event"
    by (simp add: env_join_event_def sample_env_def request_from_def)
  have a3: "VerifyJSONs env_join_event [\<lparr>ServerName = event_Origin sample_event,
                            Message = event_JSON (Redact env_join_event sample_event),
                            AtTS = event_OriginServerTS sample_event,
                            StrictValidityChecking = True\<rparr>] = Inr (\<lparr>Error = None\<rparr> # [])"
    by (simp add: sample_defs)
  have a4: "Error \<lparr>Error = None\<rparr> = None"
    by simp
  have a5: "Membership env_join_event sample_event = Inr ''join''"
    by (simp add: env_join_event_def sample_env_def)
  have a6: "''join'' \<noteq> Leave"
    by (simp add: Leave_def)
  have b1: "QueryRoomVersionForRoom env_membership_unreadable ''!r:a.org'' = Inr ''1''"
    by (simp add: env_membership_unreadable_def sample_env_def)
  have b2: "NewEventFromUntrustedJSON env_membership_unreadable
              (request_Content (request_from ''b.org'')) ''1'' = Inr sample_event"
    by (simp add: env_membership_unreadable_def sample_env_def request_from_def)
  have b3: "VerifyJSONs env_membership_unreadable [\<lparr>ServerName = event_Origin sample_event,
                            Message = event_JSON (Redact env_membership_unreadable sample_event),
                            AtTS = event_OriginServerTS sample_event,
                            StrictValidityChecking = True\<rparr>] = Inr (\<lparr>Error = None\<rparr> # [])"
    by (simp add: env_membership_unreadable_def sample_env_def)
  have b5: "Membership env_membership_unreadable sample_event
              = Inl (OtherError ''membership is not a string'')"
    by (simp add: env_membership_unreadable_def sample_env_def)
  note A = SendLeave_membership_not_leave [OF a1 a2 ev a3 a4, of sample_cfg]
  note B = SendLeave_membership_not_leave [OF b1 b2 ev b3 a4, of sample_cfg]
  from A a5 a6 have r1: "snd (SendLeave env_join_event (request_from ''b.org'') sample_cfg
                                ''!r:a.org'' ''$e1'')
       = Return (JSONResponse 400 (BadJSON
           ''The membership in the event content must be set to leave''))"
    by simp
  from A a5 a6 have r2: "SendEventsCall [Headered sample_event ''1''] ''a.org'' None
       \<notin> set (fst (SendLeave env_join_event (request_from ''b.org'') sample_cfg ''!r:a.org'' ''$e1''))"
    by simp
  from B b5 have r3: "snd (SendLeave env_membership_unreadable (request_from ''b.org'') sample_cfg
             ''!r:a.org'' ''$e1'')
       = Return (JSONResponse 500 InternalFailure)"
    by (simp add: InternalServerError_def)
  from B b5 have r4: "SendEventsCall [Headered sample_event ''1''] ''a.org'' None
       \<notin> set (fst (SendLeave env_membership_unreadable (request_from ''b.org'') sample_cfg
                       ''!r:a.org'' ''$e1''))"
    by simp
  from a5 a6 r1 r2 b5 r3 r4 show ?thesis
    by (intro conjI)
qed

text \<open>
  C7: \<open>SendLeave\<close> calls \<open>SendEvents\<close> only when every earlier step has succeeded: the
  version was resolved, the payload parsed, room ID, event ID and origin matched, the
  signature verification returned a first result without error, and the membership is
  \<open>leave\<close>. The call submits exactly the parsed event, labelled with the resolved
  version, as the local server. It is the last collaborator call: it comes after the
  version query, the parse and the verification, and only error logging can follow it.
\<close>

theorem SendLeave_submits_only_after_validation:
  assumes "SendEventsCall events sendAsServer txnID
             \<in> set (fst (SendLeave env request cfg roomID eventID))"
  shows "\<exists>ver event r rs post.
           QueryRoomVersionForRoom env roomID = Inr ver
         \<and> NewEventFromUntrustedJSON env (request_Content request) ver = Inr event
         \<and> event_RoomID event = roomID \<and> event_EventID event = eventID
         \<and> event_Origin event = request_Origin request
         \<and> VerifyJSONs env [\<lparr>ServerName = event_Origin event,
                              Message = event_JSON (Redact env event),
                              AtTS = event_OriginServerTS event,
                              StrictValidityChecking = True\<rparr>] = Inr (r # rs)
         \<and> Error r = None
         \<and> Membership env event = Inr Leave
         \<and> events = [Headered event ver] \<and> sendAsServer = Matrix_ServerName cfg \<and> txnID = None
         \<and> fst (SendLeave env request cfg roomID eventID) =
             [QueryRoomVersionForRoomCall roomID,
              NewEventFromUntrustedJSONCall (request_Content request) ver,
              VerifyJSONsCall [\<lparr>ServerName = event_Origin event,
                                Message = event_JSON (Redact env event),
                                AtTS = event_OriginServerTS event,
                                StrictValidityChecking = True\<rparr>],
              SendEventsCall events sendAsServer txnID] @ post
         \<and> (post = [] \<or> (\<exists>err. post = [LogError ''producer.SendEvents failed'' err]))"
  using assms
  by (auto simp: SendLeave_def Let_def split: sum.splits list.splits option.splits if_splits)

theorem SendLeave_submits_only_after_validation_witness:
  "SendEventsCall [Headered sample_event ''1''] ''a.org'' None
     \<in> set (fst (SendLeave sample_env (request_from ''b.org'') sample_cfg ''!r:a.org'' ''$e1''))
   \<and> (\<exists>ver event. QueryRoomVersionForRoom sample_env ''!r:a.org'' = Inr ver
         \<and> NewEventFromUntrustedJSON sample_env (request_Content (request_from ''b.org'')) ver
             = Inr event
         \<and> event_Origin event = request_Origin (request_from ''b.org'')
         \<and> Membership sample_env event = Inr Leave)"
proof -
  have h: "SendEventsCall [Headered sample_event ''1''] ''a.org'' None
     \<in> set (fst (SendLeave sample_env (request_from ''b.org'') sample_cfg ''!r:a.org'' ''$e1''))"
    by (simp add: SendLeave_def Let_def Leave_def Headered_def sample_defs)
  from SendLeave_submits_only_after_validation [OF h]
  obtain ver event where
    "QueryRoomVersionForRoom sample_env ''!r:a.org'' = Inr ver"
    "NewEventFromUntrustedJSON sample_env (request_Content (request_from ''b.org'')) ver = Inr event"
    "event_Origin event = request_Origin (request_from ''b.org'')"
    "Membership sample_env event = Inr Leave"
    by (elim exE conjE)
  with h show ?thesis by (intro exI conjI)
qed

text \<open>
  C9: \<open>SendLeave\<close> queries the room version exactly once, as its first call. Every
  parse it makes is of the request body under the version that query returned, and every
  event it submits is the event parsed under that version, labelled with that same
  version.
\<close>

theorem SendLeave_single_room_version:
  "(\<exists>t. fst (SendLeave env request cfg roomID eventID) = QueryRoomVersionForRoomCall roomID # t
        \<and> (\<forall>room. QueryRoomVersionForRoomCall room \<notin> set t))
   \<and> (\<forall>raw v. NewEventFromUntrustedJSONCall raw v
                  \<in> set (fst (SendLeave env request cfg roomID eventID)) \<longrightarrow>
          raw = request_Content request \<and> QueryRoomVersionForRoom env roomID = Inr v)
   \<and> (\<forall>events sendAsServer txnID.
          SendEventsCall events sendAsServer txnID
            \<in> set (fst (SendLeave env request cfg roomID eventID)) \<longrightarrow>
          (\<exists>v event. QueryRoomVersionForRoom env roomID = Inr v
             \<and> NewEventFromUntrustedJSON env (request_Content request) v = Inr event
             \<and> NewEventFromUntrustedJSONCall (request_Content request) v
                 \<in> set (fst (SendLeave env request cfg roomID eventID))
             \<and> events = [\<lparr>headered_RoomVersion = v, headered_Event = event\<rparr>]))"
  by (auto simp: SendLeave_def Let_def Headered_def
           split: sum.splits list.splits option.splits if_splits)

theorem SendLeave_single_room_version_witness:
  "NewEventFromUntrustedJSONCall ''signed leave event'' ''1''
     \<in> set (fst (SendLeave sample_env (request_from ''b.org'') sample_cfg ''!r:a.org'' ''$e1''))
   \<and> SendEventsCall [\<lparr>headered_RoomVersion = ''1'', headered_Event = sample_event\<rparr>] ''a.org'' None
     \<in> set (fst (SendLeave sample_env (request_from ''b.org'') sample_cfg ''!r:a.org'' ''$e1''))
   \<and> QueryRoomVersionForRoom sample_env ''!r:a.org'' = Inr ''1''"
proof -
  have h1: "NewEventFromUntrustedJSONCall ''signed leave event'' ''1''
     \<in> set (fst (SendLeave sample_env (request_from ''b.org'') sample_cfg ''!r:a.org'' ''$e1''))"
    by (simp add: SendLeave_def Let_def Leave_def Headered_def sample_defs)
  have h2: "SendEventsCall [\<lparr>headered_RoomVersion = ''1'', headered_Event = sample_event\<rparr>] ''a.org'' None
     \<in> set (fst (SendLeave sample_env (request_from ''b.org'') sample_cfg ''!r:a.org'' ''$e1''))"
    by (simp add: SendLeave_def Let_def Leave_def Headered_def sample_defs)
  from SendLeave_single_room_version [of sample_env "request_from ''b.org''" sample_cfg
      "''!r:a.org''" "''$e1''"] h1
  have "QueryRoomVersionForRoom sample_env ''!r:a.org'' = Inr ''1''"
    by blast
  with h1 h2 show ?thesis by (intro conjI)
qed

end
